theory Spec2Isabelle
  imports Complex_Main "HOL-Library.AList"
begin

section \<open>The aggregation and classification engine of the dashboard\<close>

text \<open>
  A shallow embedding of the pure functions of \<^verbatim>\<open>src/components/IndiaMap.tsx\<close>
  (the data-processing module) over the interfaces of \<^verbatim>\<open>src/lib/types.ts\<close>.

  Numbers. The count fields are JavaScript numbers that hold integers; they are
  modelled as \<^typ>\<open>int\<close>, so sums are exact (as they are in the source as long as
  the values stay in the safe-integer range). A row whose count is not-a-number,
  which the parser gives for a field that is no integer, is outside the
  aggregation of the model; the specification leaves the aggregation of such
  rows undefined. A quotient of two counts is a value of the type \<open>number\<close>
  below, which keeps the special values of the source's arithmetic (a division
  by zero gives an infinity or not-a-number, it does not raise); rounding of
  quotients is not modelled. Strings are lists of 8-bit characters: the model
  covers ASCII text, and writes a character beyond ASCII in a literal of the
  source as its UTF-8 bytes.
\<close>

subsection \<open>Data model (\<^verbatim>\<open>types.ts\<close>)\<close>

text \<open>
  \<open>AadhaarRecord\<close> is parametric in the type of its three counts: the parser
  produces \<^typ>\<open>int option\<close> (\<open>None\<close> is the not-a-number that \<open>parseInt\<close>
  returns), the aggregation consumes \<^typ>\<open>int\<close>.
\<close>

record 'n AadhaarRecord =
  Month :: string
  State :: string
  District :: string
  Age_0_5 :: 'n
  Age_5_17 :: 'n
  Age_18_plus :: 'n

text \<open>
  The string literals \<open>'low'\<close>, \<open>'medium'\<close> and \<open>'high'\<close>, the values of the
  union types of \<open>intensity\<close> and \<open>severity\<close>.
\<close>

datatype level = Low | Medium | High

text \<open>
  \<open>DistrictData\<close> and \<open>StateData\<close> declare the same seven fields under the same
  names; they are the common part \<open>Summary\<close>, extended by \<open>district\<close> and by
  \<open>districts\<close>.
\<close>

record Summary =
  state :: string
  totalUpdates :: int
  age0_5 :: int
  age5_17 :: int
  age18Plus :: int
  dominantAgeGroup :: string
  intensity :: level

record DistrictData = Summary +
  district :: string

record StateData = Summary +
  districts :: "DistrictData list"

subsection \<open>\<open>getDominantAgeGroup\<close>\<close>

definition getDominantAgeGroup :: "int \<Rightarrow> int \<Rightarrow> int \<Rightarrow> string" where
  "getDominantAgeGroup a0_5 a5_17 a18Plus =
     (let mx = max a0_5 (max a5_17 a18Plus) in
      if mx = a18Plus then ''Adult (18+)''
      else if mx = a5_17 then ''Youth (5-17)''
      else ''Child (0-5)'')"

subsection \<open>\<open>calculateIntensity\<close>\<close>

text \<open>
  Reading an array at an index: \<open>None\<close> is JavaScript's \<open>undefined\<close>, which is
  what an index out of range gives.
\<close>

definition at_index :: "'a list \<Rightarrow> nat \<Rightarrow> 'a option" where
  "at_index xs i = (if i < length xs then Some (xs ! i) else None)"

text \<open>
  \<open>value <= p\<close> where \<open>p\<close> may be \<open>undefined\<close>: the comparison with \<open>undefined\<close>
  is false.
\<close>

definition le_maybe :: "int \<Rightarrow> int option \<Rightarrow> bool" where
  "le_maybe v p = (case p of None \<Rightarrow> False | Some q \<Rightarrow> v \<le> q)"

text \<open>
  \<open>Math.floor(sorted.length * 0.33)\<close> and \<open>Math.floor(sorted.length * 0.66)\<close>,
  as the exact integer parts.
\<close>

definition index33 :: "nat \<Rightarrow> nat" where
  "index33 n = (n * 33) div 100"

definition index66 :: "nat \<Rightarrow> nat" where
  "index66 n = (n * 66) div 100"

definition calculateIntensity :: "int \<Rightarrow> int list \<Rightarrow> level" where
  "calculateIntensity v vs =
     (let sorted = sort vs;
          p33 = at_index sorted (index33 (length sorted));
          p66 = at_index sorted (index66 (length sorted))
      in if le_maybe v p33 then Low
         else if le_maybe v p66 then Medium
         else High)"

text \<open>
  The same function over a store of arrays, to see what it does to the caller's
  array: the store is the list of all arrays, an array reference is its position
  (so \<open>values\<close> is a position of the store). \<open>[...values]\<close> allocates a new
  array at the end of the store, \<open>.sort\<close> sorts that array in place.
\<close>

type_synonym store = "int list list"

definition calculateIntensity_store :: "store \<Rightarrow> int \<Rightarrow> nat \<Rightarrow> level \<times> store" where
  "calculateIntensity_store st v values =
     (let sorted = length st;
          st1 = st @ [st ! values];
          st2 = st1[sorted := sort (st1 ! sorted)];
          p33 = at_index (st2 ! sorted) (index33 (length (st2 ! sorted)));
          p66 = at_index (st2 ! sorted) (index66 (length (st2 ! sorted)))
      in (if le_maybe v p33 then Low
          else if le_maybe v p66 then Medium
          else High, st2))"

subsection \<open>\<open>aggregateByState\<close>\<close>

text \<open>
  The values of \<open>stateMap\<close>. A JavaScript \<open>Map\<close> iterates in the order in which
  its keys were first set, and setting a key again keeps its place: it is an
  association list under \<^const>\<open>AList.update\<close>.
\<close>

record StateAcc =
  acc_age0_5 :: int
  acc_age5_17 :: int
  acc_age18Plus :: int
  acc_districts :: "DistrictData list"

type_synonym stateMap = "(string \<times> StateAcc) list"

text \<open>The body of the first \<open>forEach\<close>: one record is added to the map.\<close>

definition addRecord :: "stateMap \<Rightarrow> int AadhaarRecord \<Rightarrow> stateMap" where
  "addRecord m r =
     (let total = Age_0_5 r + Age_5_17 r + Age_18_plus r;
          existing = (case map_of m (State r) of
                        Some e \<Rightarrow> e
                      | None \<Rightarrow> \<lparr>acc_age0_5 = 0, acc_age5_17 = 0, acc_age18Plus = 0,
                                 acc_districts = []\<rparr>);
          existing' = \<lparr>acc_age0_5 = acc_age0_5 existing + Age_0_5 r,
                       acc_age5_17 = acc_age5_17 existing + Age_5_17 r,
                       acc_age18Plus = acc_age18Plus existing + Age_18_plus r,
                       acc_districts = acc_districts existing @
                         [\<lparr>state = State r, totalUpdates = total,
                           age0_5 = Age_0_5 r, age5_17 = Age_5_17 r,
                           age18Plus = Age_18_plus r,
                           dominantAgeGroup =
                             getDominantAgeGroup (Age_0_5 r) (Age_5_17 r) (Age_18_plus r),
                           intensity = Low, district = District r\<rparr>]\<rparr>
      in AList.update (State r) existing' m)"

definition buildStateMap :: "int AadhaarRecord list \<Rightarrow> stateMap" where
  "buildStateMap filtered = foldl addRecord [] filtered"

text \<open>\<open>Array.from(stateMap.entries()).map(...)\<close>.\<close>

definition toStateData :: "string \<times> StateAcc \<Rightarrow> StateData" where
  "toStateData e =
     (case e of (st, d) \<Rightarrow>
        \<lparr>state = st,
         totalUpdates = acc_age0_5 d + acc_age5_17 d + acc_age18Plus d,
         age0_5 = acc_age0_5 d, age5_17 = acc_age5_17 d, age18Plus = acc_age18Plus d,
         dominantAgeGroup =
           getDominantAgeGroup (acc_age0_5 d) (acc_age5_17 d) (acc_age18Plus d),
         intensity = Low, districts = acc_districts d\<rparr>)"

text \<open>
  The second pass, \<open>states.forEach(...)\<close>, which sets every intensity. It is
  written with a log of the calls of \<open>calculateIntensity\<close> it makes, each call
  as the pair of its arguments, in the order of the calls.
\<close>

type_synonym call = "int \<times> int list"

fun classifyDistricts ::
  "int list \<Rightarrow> DistrictData list \<Rightarrow> call list \<Rightarrow> DistrictData list \<times> call list" where
  "classifyDistricts districtTotals [] lg = ([], lg)"
| "classifyDistricts districtTotals (d # ds) lg =
     (let d' = d\<lparr>intensity := calculateIntensity (totalUpdates d) districtTotals\<rparr>;
          lg' = lg @ [(totalUpdates d, districtTotals)];
          (ds', lg'') = classifyDistricts districtTotals ds lg'
      in (d' # ds', lg''))"

fun classifyStates ::
  "int list \<Rightarrow> int list \<Rightarrow> StateData list \<Rightarrow> call list \<Rightarrow> StateData list \<times> call list" where
  "classifyStates totals districtTotals [] lg = ([], lg)"
| "classifyStates totals districtTotals (s # ss) lg =
     (let i = calculateIntensity (totalUpdates s) totals;
          lg1 = lg @ [(totalUpdates s, totals)];
          (ds', lg2) = classifyDistricts districtTotals (districts s) lg1;
          s' = s\<lparr>intensity := i, districts := ds'\<rparr>;
          (ss', lg3) = classifyStates totals districtTotals ss lg2
      in (s' # ss', lg3))"

text \<open>
  Everything before the final sort, with the log. The comparator of the final
  sort, \<open>b.totalUpdates - a.totalUpdates\<close>, orders by descending total, and
  \<open>Array.prototype.sort\<close> is stable: it is the stable sort by the key
  \<open>- totalUpdates\<close>.
\<close>

definition aggregate_run ::
  "int AadhaarRecord list \<Rightarrow> string \<Rightarrow> StateData list \<times> call list" where
  "aggregate_run records month =
     (let filtered = filter (\<lambda>r. Month r = month) records;
          states = map toStateData (buildStateMap filtered);
          totals = map totalUpdates states;
          districtTotals = concat (map (\<lambda>s. map totalUpdates (districts s)) states)
      in classifyStates totals districtTotals states [])"

definition aggregateByState :: "int AadhaarRecord list \<Rightarrow> string \<Rightarrow> StateData list" where
  "aggregateByState records month =
     sort_key (\<lambda>s. - totalUpdates s) (fst (aggregate_run records month))"

definition intensity_calls :: "int AadhaarRecord list \<Rightarrow> string \<Rightarrow> call list" where
  "intensity_calls records month = snd (aggregate_run records month)"

subsection \<open>Quotients\<close>

text \<open>
  The value of an arithmetic expression over the integer fields: a rational, or
  one of the special values of JavaScript's numbers. The integer fields have one
  zero, so a division by zero takes its sign from the dividend alone.
\<close>

datatype number = Finite rat | PosInfinity | NegInfinity | NaN

definition of_count :: "int \<Rightarrow> number" where
  "of_count i = Finite (of_int i)"

fun divide_number :: "number \<Rightarrow> number \<Rightarrow> number" where
  "divide_number NaN y = NaN"
| "divide_number x NaN = NaN"
| "divide_number (Finite a) (Finite b) =
     (if b = 0 then (if 0 < a then PosInfinity else if a < 0 then NegInfinity else NaN)
      else Finite (a / b))"
| "divide_number (Finite a) y = Finite 0"
| "divide_number PosInfinity (Finite b) = (if b < 0 then NegInfinity else PosInfinity)"
| "divide_number NegInfinity (Finite b) = (if b < 0 then PosInfinity else NegInfinity)"
| "divide_number x y = NaN"

fun times_number :: "number \<Rightarrow> number \<Rightarrow> number" where
  "times_number NaN y = NaN"
| "times_number x NaN = NaN"
| "times_number (Finite a) (Finite b) = Finite (a * b)"
| "times_number (Finite a) PosInfinity =
     (if a = 0 then NaN else if 0 < a then PosInfinity else NegInfinity)"
| "times_number (Finite a) NegInfinity =
     (if a = 0 then NaN else if 0 < a then NegInfinity else PosInfinity)"
| "times_number PosInfinity (Finite b) =
     (if b = 0 then NaN else if 0 < b then PosInfinity else NegInfinity)"
| "times_number NegInfinity (Finite b) =
     (if b = 0 then NaN else if 0 < b then NegInfinity else PosInfinity)"
| "times_number PosInfinity PosInfinity = PosInfinity"
| "times_number NegInfinity NegInfinity = PosInfinity"
| "times_number x y = NegInfinity"

text \<open>\<open>x > y\<close>: false as soon as one side is not-a-number.\<close>

fun greater_number :: "number \<Rightarrow> number \<Rightarrow> bool" where
  "greater_number NaN y = False"
| "greater_number x NaN = False"
| "greater_number (Finite a) (Finite b) = (b < a)"
| "greater_number (Finite a) NegInfinity = True"
| "greater_number PosInfinity (Finite b) = True"
| "greater_number PosInfinity NegInfinity = True"
| "greater_number x y = False"

subsection \<open>Built-ins of the language\<close>

text \<open>
  The source formats quotients with \<open>Number.prototype.toFixed\<close>, reads one back
  with \<open>parseFloat\<close>, and formats a \<open>Date\<close> with \<open>toLocaleDateString\<close>. They
  are not code of this program: the functions that call them take them as the
  parameter \<open>js\<close>. \<open>toFixed js x d\<close> is \<open>x.toFixed(d)\<close>, and
  \<open>toLocaleDateString js y m\<close> is
  \<open>new Date(y, m).toLocaleDateString('en-US', { month: 'long', year: 'numeric' })\<close>
  (\<open>None\<close> is not-a-number).
\<close>

record builtins =
  toFixed :: "number \<Rightarrow> nat \<Rightarrow> string"
  parseFloat :: "string \<Rightarrow> number"
  toLocaleDateString :: "int option \<Rightarrow> int option \<Rightarrow> string"

subsection \<open>\<open>getDemographicAlerts\<close>\<close>

text \<open>
  The elements of the returned array. Their fields \<open>state\<close>, \<open>district\<close> and
  \<open>severity\<close> carry the prefix \<open>alert_\<close> here, since the other records have
  fields of these names.
\<close>

record Alert =
  alert_state :: string
  alert_district :: string
  alert :: string
  alert_severity :: level

text \<open>The body of the inner \<open>forEach\<close>, for the district \<open>d\<close> of the state \<open>s\<close>.\<close>

definition alertStep :: "builtins \<Rightarrow> StateData \<Rightarrow> Alert list \<Rightarrow> DistrictData \<Rightarrow> Alert list" where
  "alertStep js s alerts d =
     (let childRatio = divide_number (of_count (age0_5 d)) (of_count (totalUpdates d));
          youthRatio = divide_number (of_count (age5_17 d)) (of_count (totalUpdates d));
          adultRatio = divide_number (of_count (age18Plus d)) (of_count (totalUpdates d))
      in if greater_number childRatio (Finite (4 / 10)) then
           alerts @ [\<lparr>alert_state = state s, alert_district = district d,
                      alert = ''High child enrollment ('' @
                              toFixed js (times_number childRatio (Finite 100)) 0 @ ''%)'',
                      alert_severity = High\<rparr>]
         else if greater_number adultRatio (Finite (75 / 100)) then
           alerts @ [\<lparr>alert_state = state s, alert_district = district d,
                      alert = ''Adult-heavy updates ('' @
                              toFixed js (times_number adultRatio (Finite 100)) 0 @ ''%)'',
                      alert_severity = Medium\<rparr>]
         else if greater_number youthRatio (Finite (35 / 100)) then
           alerts @ [\<lparr>alert_state = state s, alert_district = district d,
                      alert = ''Youth surge detected ('' @
                              toFixed js (times_number youthRatio (Finite 100)) 0 @ ''%)'',
                      alert_severity = Medium\<rparr>]
         else alerts)"

definition allAlerts :: "builtins \<Rightarrow> StateData list \<Rightarrow> Alert list" where
  "allAlerts js states =
     foldl (\<lambda>alerts s. foldl (alertStep js s) alerts (districts s)) [] states"

definition getDemographicAlerts :: "builtins \<Rightarrow> StateData list \<Rightarrow> Alert list" where
  "getDemographicAlerts js states = take 5 (allAlerts js states)"

subsection \<open>Strings\<close>

text \<open>
  The white space that \<open>trim\<close> and \<open>parseInt\<close> strip, within ASCII: tab, line
  feed, vertical tab, form feed, carriage return and space.
\<close>

definition is_space :: "char \<Rightarrow> bool" where
  "is_space c \<longleftrightarrow> c \<in> set [CHR 0x09, CHR 0x0A, CHR 0x0B, CHR 0x0C, CHR 0x0D, CHR 0x20]"

definition trim :: "string \<Rightarrow> string" where
  "trim s = rev (dropWhile is_space (rev (dropWhile is_space s)))"

text \<open>\<open>s.split(sep)\<close> for a separator of one character.\<close>

fun split_on :: "char \<Rightarrow> string \<Rightarrow> string list" where
  "split_on sep [] = [[]]"
| "split_on sep (c # cs) =
     (if c = sep then [] # split_on sep cs
      else (case split_on sep cs of
              [] \<Rightarrow> [[c]]
            | w # ws \<Rightarrow> (c # w) # ws))"

fun join :: "string \<Rightarrow> string list \<Rightarrow> string" where
  "join sep [] = []"
| "join sep [w] = w"
| "join sep (w # ws) = w @ sep @ join sep ws"

definition toLowerCase :: "char \<Rightarrow> char" where
  "toLowerCase c =
     (if (of_char (CHR ''A'') :: nat) \<le> of_char c \<and> (of_char c :: nat) \<le> of_char (CHR ''Z'')
      then char_of (of_char c + (32 :: nat)) else c)"

definition toUpperCase :: "char \<Rightarrow> char" where
  "toUpperCase c =
     (if (of_char (CHR ''a'') :: nat) \<le> of_char c \<and> (of_char c :: nat) \<le> of_char (CHR ''z'')
      then char_of (of_char c - (32 :: nat)) else c)"

text \<open>The decimal digits of a natural number, as \<open>toString\<close> writes an integer.\<close>

definition digit_char :: "nat \<Rightarrow> char" where
  "digit_char d = char_of (of_char (CHR ''0'') + d)"

fun decimal :: "nat \<Rightarrow> string" where
  "decimal n = (if n < 10 then [digit_char n] else decimal (n div 10) @ [digit_char (n mod 10)])"

declare decimal.simps [simp del]

definition toString :: "int \<Rightarrow> string" where
  "toString i = (if i < 0 then ''-'' @ decimal (nat (- i)) else decimal (nat i))"

definition is_digit :: "char \<Rightarrow> bool" where
  "is_digit c \<longleftrightarrow>
     (of_char (CHR ''0'') :: nat) \<le> of_char c \<and> (of_char c :: nat) \<le> of_char (CHR ''9'')"

definition digit_value :: "char \<Rightarrow> nat" where
  "digit_value c = of_char c - of_char (CHR ''0'')"

text \<open>
  \<open>parseInt(s, 10)\<close>: leading white space is skipped, then comes an optional
  sign, then the longest run of decimal digits; what follows is ignored. With no
  digit the result is not-a-number, \<open>None\<close>.
\<close>

definition parseInt :: "string \<Rightarrow> int option" where
  "parseInt s =
     (let s1 = dropWhile is_space s;
          negative = (s1 \<noteq> [] \<and> hd s1 = CHR ''-'');
          s2 = (if s1 \<noteq> [] \<and> (hd s1 = CHR ''+'' \<or> hd s1 = CHR ''-'') then tl s1 else s1);
          ds = takeWhile is_digit s2;
          n = int (foldl (\<lambda>acc c. 10 * acc + digit_value c) 0 ds)
      in if ds = [] then None else Some (if negative then - n else n))"

text \<open>
  \<open>parseInt\<close> of an element that may be missing: \<open>undefined\<close> is converted to
  the string \<open>undefined\<close> first.
\<close>

definition parseInt_maybe :: "string option \<Rightarrow> int option" where
  "parseInt_maybe v = (case v of None \<Rightarrow> parseInt ''undefined'' | Some s \<Rightarrow> parseInt s)"

subsection \<open>\<open>formatMonth\<close> and \<open>formatNumber\<close>\<close>

definition formatMonth :: "builtins \<Rightarrow> string \<Rightarrow> string" where
  "formatMonth js monthStr =
     (let parts = split_on (CHR ''-'') monthStr;
          year = at_index parts 0;
          mon = at_index parts 1
      in toLocaleDateString js (parseInt_maybe year)
           (map_option (\<lambda>m. m - 1) (parseInt_maybe mon)))"

definition formatNumber :: "builtins \<Rightarrow> int \<Rightarrow> string" where
  "formatNumber js num =
     (if 1000000 \<le> num then
        toFixed js (divide_number (of_count num) (Finite 1000000)) 1 @ ''M''
      else if 1000 \<le> num then
        toFixed js (divide_number (of_count num) (Finite 1000)) 1 @ ''K''
      else toString num)"

subsection \<open>\<open>generateRecommendations\<close>\<close>

record Recommendation =
  severity :: level
  location :: string
  month :: string
  reasons :: "string list"
  actions :: "string list"
  expectedImpact :: string

text \<open>
  The two values of \<open>expectedImpact\<close>. The dash between the percentages is
  U+2013, written as its three UTF-8 bytes.
\<close>

definition impact_high :: string where
  "impact_high = ''~25'' @ [CHR 0xE2, CHR 0x80, CHR 0x93] @ ''35% load normalization''"

definition impact_medium :: string where
  "impact_medium = ''~15'' @ [CHR 0xE2, CHR 0x80, CHR 0x93] @ ''20% efficiency improvement''"

text \<open>
  The body of the inner \<open>forEach\<close>, for a district \<open>d\<close> of the state \<open>s\<close> that
  passed the filter. The multiplication sign of the first reason is U+00D7,
  written as its two UTF-8 bytes.
\<close>

definition recommendStep ::
  "builtins \<Rightarrow> number \<Rightarrow> number \<Rightarrow> string \<Rightarrow> StateData \<Rightarrow>
   Recommendation list \<Rightarrow> DistrictData \<Rightarrow> Recommendation list" where
  "recommendStep js avgTotal stateMedian monthStr s recommendations d =
     (let multiplier = toFixed js (divide_number (of_count (totalUpdates d)) stateMedian) 1;
          reasons0 = (if greater_number (parseFloat js multiplier) (Finite (15 / 10))
                      then [multiplier @ [CHR 0xC3, CHR 0x97] @ '' state median update volume'']
                      else []);
          adultRatio = divide_number (of_count (age18Plus d)) (of_count (totalUpdates d));
          childRatio = divide_number (of_count (age0_5 d)) (of_count (totalUpdates d));
          youthRatio = divide_number (of_count (age5_17 d)) (of_count (totalUpdates d));
          reasons1 = (if greater_number adultRatio (Finite (65 / 100))
                      then reasons0 @ [''Adult-heavy demographic skew''] else reasons0);
          actions1 = (if greater_number adultRatio (Finite (65 / 100))
                      then [''Extended update windows'',
                            ''Priority processing for biometric updates'']
                      else []);
          reasons2 = (if greater_number childRatio (Finite (25 / 100))
                      then reasons1 @ [''High child enrollment activity''] else reasons1);
          actions2 = (if greater_number childRatio (Finite (25 / 100))
                      then actions1 @ [''School-based enrollment camps'',
                                       ''Parent awareness campaigns'']
                      else actions1);
          reasons3 = (if greater_number youthRatio (Finite (3 / 10))
                      then reasons2 @ [''Youth update surge''] else reasons2);
          actions3 = (if greater_number youthRatio (Finite (3 / 10))
                      then actions2 @ [''College enrollment integration''] else actions2);
          actions4 = (if greater_number (of_count (totalUpdates d)) (times_number avgTotal (Finite (15 / 10)))
                      then actions3 @ [''Temporary capacity expansion'',
                                       ''Targeted awareness campaigns'']
                      else actions3)
      in if 0 < length reasons3 then
           recommendations @
             [\<lparr>severity = (if greater_number (of_count (totalUpdates d)) (times_number avgTotal (Finite 2))
                           then High else Medium),
               location = district d @ '', '' @ state s,
               month = formatMonth js monthStr,
               reasons = reasons3,
               actions = (if 0 < length actions4 then actions4
                          else [''Monitor situation closely'']),
               expectedImpact =
                 (if greater_number (of_count (totalUpdates d)) (times_number avgTotal (Finite 2))
                  then impact_high else impact_medium)\<rparr>]
         else recommendations)"

text \<open>\<open>reduce((sum, d) => sum + d.totalUpdates, 0) / length\<close>.\<close>

definition averageTotal :: "DistrictData list \<Rightarrow> number" where
  "averageTotal ds =
     divide_number (of_count (foldl (\<lambda>sum d. sum + totalUpdates d) 0 ds))
       (of_count (int (length ds)))"

text \<open>The body of the outer \<open>forEach\<close>.\<close>

definition recommendState ::
  "builtins \<Rightarrow> number \<Rightarrow> string \<Rightarrow> Recommendation list \<Rightarrow> StateData \<Rightarrow>
   Recommendation list" where
  "recommendState js avgTotal monthStr recommendations s =
     (let stateMedian = averageTotal (districts s)
      in foldl (recommendStep js avgTotal stateMedian monthStr s) recommendations
           (filter (\<lambda>d. intensity d = High) (districts s)))"

text \<open>The array \<open>recommendations\<close> when the loops are over, before it is sorted.\<close>

definition allRecommendations ::
  "builtins \<Rightarrow> StateData list \<Rightarrow> string \<Rightarrow> Recommendation list" where
  "allRecommendations js states monthStr =
     (let allDistricts = concat (map districts states);
          avgTotal = averageTotal allDistricts
      in foldl (recommendState js avgTotal monthStr) [] states)"

text \<open>
  The comparator of the sort is the difference of the keys below, and the sort
  is stable.
\<close>

definition generateRecommendations ::
  "builtins \<Rightarrow> StateData list \<Rightarrow> string \<Rightarrow> Recommendation list" where
  "generateRecommendations js states monthStr =
     take 4 (sort_key (\<lambda>r. if severity r = High then 0 else (1 :: nat))
               (allRecommendations js states monthStr))"

subsection \<open>\<open>parseCSV\<close>\<close>

text \<open>
  \<open>parseCSVLine\<close>: the loop over the characters of the line, with the loop's
  variables \<open>result\<close>, \<open>current\<close> and \<open>inQuotes\<close>.
\<close>

fun parseCSVLine_loop :: "string \<Rightarrow> string list \<Rightarrow> string \<Rightarrow> bool \<Rightarrow> string list" where
  "parseCSVLine_loop [] result current inQuotes = result @ [trim current]"
| "parseCSVLine_loop (c # cs) result current inQuotes =
     (if c = CHR 0x22 then parseCSVLine_loop cs result current (\<not> inQuotes)
      else if c = CHR '','' \<and> \<not> inQuotes then
        parseCSVLine_loop cs (result @ [trim current]) [] inQuotes
      else parseCSVLine_loop cs result (current @ [c]) inQuotes)"

definition parseCSVLine :: "string \<Rightarrow> string list" where
  "parseCSVLine line = parseCSVLine_loop line [] [] False"

text \<open>\<open>word.charAt(0).toUpperCase() + word.slice(1)\<close>.\<close>

definition capitalize :: "string \<Rightarrow> string" where
  "capitalize word = (case word of [] \<Rightarrow> [] | c # cs \<Rightarrow> toUpperCase c # cs)"

definition normalizeCase :: "string \<Rightarrow> string" where
  "normalizeCase str =
     join '' '' (map capitalize (split_on (CHR '' '') (map toLowerCase str)))"

text \<open>
  The only failure of \<open>parseCSV\<close>: \<open>normalizeCase\<close> calls a method of its
  argument, which raises a \<open>TypeError\<close> when the line has no second or no third
  field.
\<close>

datatype error = TypeError

definition parseRecord :: "string \<Rightarrow> error + int option AadhaarRecord" where
  "parseRecord line =
     (let values = parseCSVLine line
      in case at_index values 1 of
           None \<Rightarrow> Inl TypeError
         | Some v1 \<Rightarrow>
             (case at_index values 2 of
                None \<Rightarrow> Inl TypeError
              | Some v2 \<Rightarrow>
                  Inr \<lparr>Month = hd values,
                       State = normalizeCase v1,
                       District = normalizeCase v2,
                       Age_0_5 = parseInt_maybe (at_index values 3),
                       Age_5_17 = parseInt_maybe (at_index values 4),
                       Age_18_plus = parseInt_maybe (at_index values 5)\<rparr>))"

text \<open>\<open>lines.map(...)\<close>, which stops at the first line that raises.\<close>

fun map_lines :: "(string \<Rightarrow> error + 'a) \<Rightarrow> string list \<Rightarrow> error + 'a list" where
  "map_lines f [] = Inr []"
| "map_lines f (l # ls) =
     (case f l of
        Inl e \<Rightarrow> Inl e
      | Inr r \<Rightarrow> (case map_lines f ls of Inl e \<Rightarrow> Inl e | Inr rs \<Rightarrow> Inr (r # rs)))"

definition parseCSV :: "string \<Rightarrow> error + int option AadhaarRecord list" where
  "parseCSV csvText =
     (let lines = split_on (CHR 0x0A) (trim csvText)
      in map_lines parseRecord (drop 1 lines))"

section \<open>Notions used to state the properties\<close>

subsection \<open>The classifier as the specification words it\<close>

text \<open>
  Section 4.2 of the specification: the reference values sorted ascending, the
  cut points at the indices \<open>floor(0.33 \<times> length)\<close> and \<open>floor(0.66 \<times> length)\<close>,
  \<open>low\<close> up to the first cut point, \<open>medium\<close> up to the second, else \<open>high\<close>.
\<close>

definition classify_spec :: "int \<Rightarrow> int list \<Rightarrow> level" where
  "classify_spec v vs =
     (let sorted = sort vs;
          cut33 = sorted ! nat \<lfloor>(33 / 100 :: rat) * of_nat (length vs)\<rfloor>;
          cut66 = sorted ! nat \<lfloor>(66 / 100 :: rat) * of_nat (length vs)\<rfloor>
      in if v \<le> cut33 then Low else if v \<le> cut66 then Medium else High)"

subsection \<open>First appearance\<close>

text \<open>The position at which \<open>x\<close> first appears in \<open>xs\<close>.\<close>

definition first_index :: "'a \<Rightarrow> 'a list \<Rightarrow> nat" where
  "first_index x xs = length (takeWhile (\<lambda>y. y \<noteq> x) xs)"

subsection \<open>The alert rules as the specification words them\<close>

text \<open>
  Section 4.4 of the specification: a ratio is a bracket count divided by the
  total; the rules are tried in a fixed order and the first that matches gives
  the severity.
\<close>

definition ratio_exceeds :: "int \<Rightarrow> int \<Rightarrow> rat \<Rightarrow> bool" where
  "ratio_exceeds c tot threshold =
     greater_number (divide_number (of_count c) (of_count tot)) (Finite threshold)"

definition first_rule :: "DistrictData \<Rightarrow> level option" where
  "first_rule d =
     (if ratio_exceeds (age0_5 d) (totalUpdates d) (40 / 100) then Some High
      else if ratio_exceeds (age18Plus d) (totalUpdates d) (75 / 100) then Some Medium
      else if ratio_exceeds (age5_17 d) (totalUpdates d) (35 / 100) then Some Medium
      else None)"

text \<open>
  The alerts in the order of traversal, regions first and sub-regions within
  them, cut after the fifth; each alert as its region, its sub-region and its
  severity.
\<close>

definition alerts_spec :: "StateData list \<Rightarrow> (string \<times> string \<times> level) list" where
  "alerts_spec states =
     take 5 (concat (map (\<lambda>s. List.map_filter
                                  (\<lambda>d. map_option (\<lambda>sev. (state s, district d, sev)) (first_rule d))
                                  (districts s))
                       states))"

definition alert_key :: "Alert \<Rightarrow> string \<times> string \<times> level" where
  "alert_key a = (alert_state a, alert_district a, alert_severity a)"

subsection \<open>The recommendations of one district\<close>

text \<open>
  What the loops of \<open>generateRecommendations\<close> add for the district \<open>d\<close> of the
  state \<open>s\<close>: the body of the inner loop, run on an empty array with the two
  averages the function computes.
\<close>

definition emitted ::
  "builtins \<Rightarrow> StateData list \<Rightarrow> string \<Rightarrow> StateData \<Rightarrow> DistrictData \<Rightarrow> Recommendation list" where
  "emitted js states monthStr s d =
     recommendStep js (averageTotal (concat (map districts states)))
       (averageTotal (districts s)) monthStr s [] d"

subsection \<open>A record written as a line of CSV\<close>

text \<open>
  The line of the round trip of section 8: the six fields of a record with
  counts in \<open>nat\<close>, joined by commas.
\<close>

definition csv_line :: "nat AadhaarRecord \<Rightarrow> string" where
  "csv_line r =
     Month r @ '','' @ State r @ '','' @ District r @ '','' @
     decimal (Age_0_5 r) @ '','' @ decimal (Age_5_17 r) @ '','' @ decimal (Age_18_plus r)"

text \<open>A field with no comma, no double quote and no line feed.\<close>

definition plain_field :: "string \<Rightarrow> bool" where
  "plain_field f \<longleftrightarrow> CHR '','' \<notin> set f \<and> CHR 0x22 \<notin> set f \<and> CHR 0x0A \<notin> set f"

text \<open>A header line: one line, and not a blank one.\<close>

definition header_line :: "string \<Rightarrow> bool" where
  "header_line h \<longleftrightarrow> CHR 0x0A \<notin> set h \<and> (\<exists>c \<in> set h. \<not> is_space c)"

subsection \<open>Intermediate values of \<open>aggregateByState\<close>\<close>

text \<open>The array \<open>states\<close> before the second pass, and the two lists of totals.\<close>

definition statesBefore :: "int AadhaarRecord list \<Rightarrow> string \<Rightarrow> StateData list" where
  "statesBefore records period =
     map toStateData (buildStateMap (filter (\<lambda>r. Month r = period) records))"

definition totalsOf :: "StateData list \<Rightarrow> int list" where
  "totalsOf states = map totalUpdates states"

definition districtTotalsOf :: "StateData list \<Rightarrow> int list" where
  "districtTotalsOf states = concat (map (\<lambda>s. map totalUpdates (districts s)) states)"

text \<open>What the second pass makes of one state.\<close>

definition classified :: "int list \<Rightarrow> int list \<Rightarrow> StateData \<Rightarrow> StateData" where
  "classified totals dT s =
     s\<lparr>intensity := calculateIntensity (totalUpdates s) totals,
       districts := map (\<lambda>d. d\<lparr>intensity := calculateIntensity (totalUpdates d) dT\<rparr>)
                      (districts s)\<rparr>"

text \<open>The invariant of the values of \<open>stateMap\<close>.\<close>

definition acc_ok :: "StateAcc \<Rightarrow> bool" where
  "acc_ok a \<longleftrightarrow>
     acc_age0_5 a = sum_list (map age0_5 (acc_districts a)) \<and>
     acc_age5_17 a = sum_list (map age5_17 (acc_districts a)) \<and>
     acc_age18Plus a = sum_list (map age18Plus (acc_districts a)) \<and>
     (\<forall>d \<in> set (acc_districts a). age0_5 d + age5_17 d + age18Plus d = totalUpdates d)"

section \<open>Concrete inputs\<close>

subsection \<open>An instance of the built-ins\<close>

text \<open>
  The theorems below hold for every \<open>js\<close>. Where a concrete input is evaluated,
  \<open>js\<close> is the following instance, which computes in exact decimal arithmetic:
  \<open>toFixed\<close> rounds the exact value half away from zero, \<open>parseFloat\<close> reads an
  optional sign and then \<open>Infinity\<close> or digits with an optional fraction (no
  exponent), and the date is the month and the year of \<open>new Date(y, m)\<close>, with
  the month carried into the year and a year from 0 to 99 counted from 1900. On
  the arguments that occur in the examples these are the strings and numbers the
  language gives.
\<close>

definition month_names :: "string list" where
  "month_names = [''January'', ''February'', ''March'', ''April'', ''May'', ''June'', ''July'',
                  ''August'', ''September'', ''October'', ''November'', ''December'']"

definition example_toFixed :: "number \<Rightarrow> nat \<Rightarrow> string" where
  "example_toFixed x d =
     (case x of
        NaN \<Rightarrow> ''NaN''
      | PosInfinity \<Rightarrow> ''Infinity''
      | NegInfinity \<Rightarrow> ''-Infinity''
      | Finite q \<Rightarrow>
          (let n = nat \<lfloor>\<bar>q\<bar> * 10 ^ d + 1 / 2\<rfloor>;
               ds = decimal n;
               padded = replicate (d + 1 - length ds) (CHR ''0'') @ ds;
               ip = take (length padded - d) padded;
               fp = drop (length padded - d) padded
           in (if q < 0 then ''-'' else []) @ ip @ (if d = 0 then [] else ''.'' @ fp)))"

definition example_parseFloat :: "string \<Rightarrow> number" where
  "example_parseFloat s =
     (let s1 = dropWhile is_space s;
          negative = (s1 \<noteq> [] \<and> hd s1 = CHR ''-'');
          s2 = (if s1 \<noteq> [] \<and> (hd s1 = CHR ''+'' \<or> hd s1 = CHR ''-'') then tl s1 else s1);
          ip = takeWhile is_digit s2;
          r = dropWhile is_digit s2;
          fp = (if r \<noteq> [] \<and> hd r = CHR ''.'' then takeWhile is_digit (tl r) else []);
          v = of_nat (foldl (\<lambda>acc c. 10 * acc + digit_value c) 0 ip) +
              of_nat (foldl (\<lambda>acc c. 10 * acc + digit_value c) 0 fp) / 10 ^ length fp
      in if take 8 s2 = ''Infinity'' then (if negative then NegInfinity else PosInfinity)
         else if ip = [] \<and> fp = [] then NaN
         else Finite (if negative then - v else v))"

definition example_toLocaleDateString :: "int option \<Rightarrow> int option \<Rightarrow> string" where
  "example_toLocaleDateString y m =
     (case (y, m) of
        (Some yr, Some mi) \<Rightarrow>
          month_names ! nat (mi mod 12) @ '' '' @
          toString ((if 0 \<le> yr \<and> yr \<le> 99 then 1900 + yr else yr) + mi div 12)
      | _ \<Rightarrow> ''Invalid Date'')"

definition example_builtins :: builtins where
  "example_builtins =
     \<lparr>toFixed = example_toFixed, parseFloat = example_parseFloat,
      toLocaleDateString = example_toLocaleDateString\<rparr>"

subsection \<open>Records\<close>

text \<open>
  Five records over two periods. In the period \<open>2024-01\<close> Goa is seen first,
  then Delhi, then Kerala; Delhi has two districts and the largest total, Goa
  and Kerala have the same total.
\<close>

definition sample_records :: "int AadhaarRecord list" where
  "sample_records =
     [\<lparr>Month = ''2024-01'', State = ''Goa'', District = ''Panaji'',
        Age_0_5 = 10, Age_5_17 = 20, Age_18_plus = 70\<rparr>,
      \<lparr>Month = ''2024-01'', State = ''Delhi'', District = ''North'',
        Age_0_5 = 300, Age_5_17 = 100, Age_18_plus = 100\<rparr>,
      \<lparr>Month = ''2024-02'', State = ''Goa'', District = ''Margao'',
        Age_0_5 = 1, Age_5_17 = 2, Age_18_plus = 3\<rparr>,
      \<lparr>Month = ''2024-01'', State = ''Delhi'', District = ''South'',
        Age_0_5 = 5, Age_5_17 = 5, Age_18_plus = 90\<rparr>,
      \<lparr>Month = ''2024-01'', State = ''Kerala'', District = ''Kochi'',
        Age_0_5 = 20, Age_5_17 = 30, Age_18_plus = 50\<rparr>]"

definition sample_states :: "StateData list" where
  "sample_states = aggregateByState sample_records ''2024-01''"

text \<open>One record whose counts are all zero, and one whose counts cancel.\<close>

definition zero_records :: "int AadhaarRecord list" where
  "zero_records =
     [\<lparr>Month = ''2024-01'', State = ''Goa'', District = ''Panaji'',
        Age_0_5 = 0, Age_5_17 = 0, Age_18_plus = 0\<rparr>]"

definition negative_records :: "int AadhaarRecord list" where
  "negative_records =
     [\<lparr>Month = ''2024-01'', State = ''Goa'', District = ''Panaji'',
        Age_0_5 = 5, Age_5_17 = - 5, Age_18_plus = 0\<rparr>]"

text \<open>
  A header, and a record whose region name starts with a space and has two
  spaces between its words.
\<close>

definition sample_header :: string where
  "sample_header = ''Month,State,District,Age_0_5,Age_5_17,Age_18_plus''"

definition spaced_record :: "nat AadhaarRecord" where
  "spaced_record =
     \<lparr>Month = ''2024-01'', State = '' new  DELHI'', District = ''north'',
      Age_0_5 = 45, Age_5_17 = 30, Age_18_plus = 25\<rparr>"

definition tidy_record :: "nat AadhaarRecord" where
  "tidy_record =
     \<lparr>Month = ''2024-01'', State = ''UTTAR pradesh'', District = ''agra'',
      Age_0_5 = 0, Age_5_17 = 7, Age_18_plus = 1200\<rparr>"

section \<open>Aggregation\<close>

subsection \<open>The second pass and its log\<close>

lemma classifyDistricts_fst:
  "fst (classifyDistricts dT ds lg) =
     map (\<lambda>d. d\<lparr>intensity := calculateIntensity (totalUpdates d) dT\<rparr>) ds"
  by (induction ds arbitrary: lg) (simp_all add: Let_def case_prod_beta)

lemma classifyDistricts_snd:
  "snd (classifyDistricts dT ds lg) = lg @ map (\<lambda>d. (totalUpdates d, dT)) ds"
  by (induction ds arbitrary: lg) (simp_all add: Let_def case_prod_beta)

lemma classifyStates_fst:
  "fst (classifyStates totals dT ss lg) = map (classified totals dT) ss"
  by (induction ss arbitrary: lg)
     (simp_all add: Let_def case_prod_beta classified_def classifyDistricts_fst)

lemma classifyStates_snd:
  "snd (classifyStates totals dT ss lg) =
     lg @ concat (map (\<lambda>s. (totalUpdates s, totals) #
                            map (\<lambda>d. (totalUpdates d, dT)) (districts s)) ss)"
  by (induction ss arbitrary: lg)
     (simp_all add: Let_def case_prod_beta classifyDistricts_snd)

lemma aggregate_run_fst:
  "fst (aggregate_run records period) =
     map (classified (totalsOf (statesBefore records period))
            (districtTotalsOf (statesBefore records period)))
       (statesBefore records period)"
  by (simp only: aggregate_run_def Let_def classifyStates_fst statesBefore_def
        totalsOf_def districtTotalsOf_def)

lemma aggregate_run_snd:
  "snd (aggregate_run records period) =
     concat (map (\<lambda>s. (totalUpdates s, totalsOf (statesBefore records period)) #
                       map (\<lambda>d. (totalUpdates d, districtTotalsOf (statesBefore records period)))
                         (districts s))
               (statesBefore records period))"
  by (simp only: aggregate_run_def Let_def classifyStates_snd statesBefore_def
        totalsOf_def districtTotalsOf_def append_Nil)

lemma aggregateByState_set:
  "set (aggregateByState records period) =
     classified (totalsOf (statesBefore records period))
       (districtTotalsOf (statesBefore records period)) ` set (statesBefore records period)"
  by (simp add: aggregateByState_def aggregate_run_fst)

subsection \<open>The sums\<close>

lemma set_update_cases:
  "x \<in> set (AList.update k v al) \<Longrightarrow> x = (k, v) \<or> x \<in> set al"
  by (induction al) (auto split: if_splits)

lemma addRecord_acc_ok:
  assumes "\<forall>e \<in> set m. acc_ok (snd e)"
  shows "\<forall>e \<in> set (addRecord m r). acc_ok (snd e)"
proof
  fix e assume e: "e \<in> set (addRecord m r)"
  define ex where "ex = (case map_of m (State r) of
                        Some e \<Rightarrow> e
                      | None \<Rightarrow> \<lparr>acc_age0_5 = 0, acc_age5_17 = 0, acc_age18Plus = 0,
                                 acc_districts = []\<rparr>)"
  have ex_ok: "acc_ok ex"
  proof (cases "map_of m (State r)")
    case None
    then show ?thesis by (simp add: ex_def acc_ok_def)
  next
    case (Some a)
    then have "(State r, a) \<in> set m" by (rule map_of_SomeD)
    with assms have "acc_ok a" by fastforce
    with Some show ?thesis by (simp add: ex_def)
  qed
  from e consider "acc_ok (snd e)" | "e \<in> set m"
    using ex_ok set_update_cases [of e "State r" _ m]
    unfolding addRecord_def Let_def ex_def [symmetric]
    by (fastforce simp: acc_ok_def)
  then show "acc_ok (snd e)" using assms by cases auto
qed

lemma foldl_addRecord_acc_ok:
  "\<forall>e \<in> set m. acc_ok (snd e) \<Longrightarrow> \<forall>e \<in> set (foldl addRecord m rs). acc_ok (snd e)"
proof (induction rs arbitrary: m)
  case Nil
  then show ?case by simp
next
  case (Cons r rs)
  show ?case using Cons.IH [OF addRecord_acc_ok [OF Cons.prems]] by simp
qed

lemma buildStateMap_acc_ok: "e \<in> set (buildStateMap rs) \<Longrightarrow> acc_ok (snd e)"
  using foldl_addRecord_acc_ok [of "[]" rs] by (simp add: buildStateMap_def)

text \<open>
  Claim C1. In the output of \<open>aggregateByState\<close>, for every record list and
  every period, each district summary has
  \<open>age0_5 + age5_17 + age18Plus = totalUpdates\<close>, each state summary's three
  bracket counts are the sums of the corresponding counts over its list of
  district summaries, and its \<open>totalUpdates\<close> is the sum of its own three
  bracket counts.
\<close>

theorem aggregateByState_sums:
  assumes "s \<in> set (aggregateByState records period)"
  shows "(\<forall>d \<in> set (districts s). age0_5 d + age5_17 d + age18Plus d = totalUpdates d) \<and>
         age0_5 s = sum_list (map age0_5 (districts s)) \<and>
         age5_17 s = sum_list (map age5_17 (districts s)) \<and>
         age18Plus s = sum_list (map age18Plus (districts s)) \<and>
         totalUpdates s = age0_5 s + age5_17 s + age18Plus s"
proof -
  from assms obtain e T D
    where e: "e \<in> set (buildStateMap (filter (\<lambda>r. Month r = period) records))"
      and s: "s = classified T D (toStateData e)"
    unfolding aggregateByState_set statesBefore_def by auto
  have ok: "acc_ok (snd e)" using e by (rule buildStateMap_acc_ok)
  obtain k a where ka: "e = (k, a)" by (cases e)
  from ok ka have a: "acc_ok a" by simp
  have ds: "districts s =
              map (\<lambda>d. d\<lparr>intensity := calculateIntensity (totalUpdates d) D\<rparr>) (acc_districts a)"
    by (simp add: s ka classified_def toStateData_def)
  have m1: "map age0_5 (districts s) = map age0_5 (acc_districts a)"
    and m2: "map age5_17 (districts s) = map age5_17 (acc_districts a)"
    and m3: "map age18Plus (districts s) = map age18Plus (acc_districts a)"
    by (simp_all add: ds comp_def)
  have f: "age0_5 s = acc_age0_5 a" "age5_17 s = acc_age5_17 a" "age18Plus s = acc_age18Plus a"
    "totalUpdates s = acc_age0_5 a + acc_age5_17 a + acc_age18Plus a"
    by (simp_all add: s ka classified_def toStateData_def)
  have d: "\<forall>d \<in> set (districts s). age0_5 d + age5_17 d + age18Plus d = totalUpdates d"
    using a by (auto simp: ds acc_ok_def)
  show ?thesis using a d unfolding m1 m2 m3 f by (simp add: acc_ok_def)
qed

text \<open>
  On the sample: Delhi comes first in the output, with its two districts of
  totals 500 and 100 and the total 600.
\<close>

theorem aggregateByState_sums_witness:
  "hd (aggregateByState sample_records ''2024-01'')
     \<in> set (aggregateByState sample_records ''2024-01'') \<and>
   state (hd (aggregateByState sample_records ''2024-01'')) = ''Delhi'' \<and>
   map totalUpdates (districts (hd (aggregateByState sample_records ''2024-01''))) = [500, 100] \<and>
   age0_5 (hd (aggregateByState sample_records ''2024-01''))
     = sum_list (map age0_5 (districts (hd (aggregateByState sample_records ''2024-01'')))) \<and>
   totalUpdates (hd (aggregateByState sample_records ''2024-01'')) = 600"
proof -
  have mem: "hd (aggregateByState sample_records ''2024-01'')
               \<in> set (aggregateByState sample_records ''2024-01'')"
    by code_simp
  have ev: "state (hd (aggregateByState sample_records ''2024-01'')) = ''Delhi''"
    "map totalUpdates (districts (hd (aggregateByState sample_records ''2024-01''))) = [500, 100]"
    "totalUpdates (hd (aggregateByState sample_records ''2024-01'')) = 600"
    by code_simp+
  from aggregateByState_sums [OF mem] mem ev show ?thesis by blast
qed

subsection \<open>The order of the output\<close>

lemma first_index_less: "x \<in> set xs \<Longrightarrow> first_index x xs < length xs"
  unfolding first_index_def by (induction xs) auto

lemma first_index_snoc_old: "x \<in> set xs \<Longrightarrow> first_index x (xs @ [y]) = first_index x xs"
  unfolding first_index_def by (induction xs) auto

lemma first_index_snoc_new: "x \<notin> set xs \<Longrightarrow> first_index x (xs @ [x]) = length xs"
  unfolding first_index_def by (induction xs) auto

text \<open>
  The keys of a map that is filled in the order of a list stand in the order in
  which they first appear in that list.
\<close>

lemma first_seen_step:
  assumes ks: "set ks = set ns"
    and srt: "sorted_wrt (\<lambda>a b. first_index a ns < first_index b ns) ks"
  shows "set (if x \<in> set ks then ks else ks @ [x]) = set (ns @ [x]) \<and>
         sorted_wrt (\<lambda>a b. first_index a (ns @ [x]) < first_index b (ns @ [x]))
           (if x \<in> set ks then ks else ks @ [x])"
proof -
  have old: "sorted_wrt (\<lambda>a b. first_index a (ns @ [x]) < first_index b (ns @ [x])) ks"
    by (rule sorted_wrt_mono_rel [OF _ srt]) (simp add: ks first_index_snoc_old)
  show ?thesis
  proof (cases "x \<in> set ks")
    case True
    then show ?thesis using old ks by auto
  next
    case False
    then have new: "x \<notin> set ns" using ks by simp
    have "\<forall>a \<in> set ks. first_index a (ns @ [x]) < first_index x (ns @ [x])"
      using ks first_index_less [of _ ns]
      by (simp add: first_index_snoc_new [OF new] first_index_snoc_old)
    then show ?thesis using False old ks
      by (simp add: sorted_wrt_append)
  qed
qed

lemma addRecord_keys:
  "map fst (addRecord m r) =
     (if State r \<in> set (map fst m) then map fst m else map fst m @ [State r])"
  unfolding addRecord_def Let_def by (rule AList.update_keys)

lemma buildStateMap_snoc: "buildStateMap (rs @ [r]) = addRecord (buildStateMap rs) r"
  by (simp add: buildStateMap_def)

lemma buildStateMap_keys:
  "set (map fst (buildStateMap rs)) = set (map State rs) \<and>
   sorted_wrt (\<lambda>a b. first_index a (map State rs) < first_index b (map State rs))
     (map fst (buildStateMap rs))"
proof (induction rs rule: rev_induct)
  case Nil
  show ?case by (simp add: buildStateMap_def)
next
  case (snoc r rs)
  from snoc have ks: "set (map fst (buildStateMap rs)) = set (map State rs)"
    and srt: "sorted_wrt (\<lambda>a b. first_index a (map State rs) < first_index b (map State rs))
                (map fst (buildStateMap rs))"
    by blast+
  have ns: "map State (rs @ [r]) = map State rs @ [State r]" by simp
  show ?case
    unfolding buildStateMap_snoc addRecord_keys ns
    using ks srt by (rule first_seen_step)
qed

lemma state_classified: "state (classified T D (toStateData e)) = fst e"
  by (cases e) (simp add: classified_def toStateData_def)

text \<open>
  A stable sort by a key, of a list that a relation \<open>R\<close> already orders, orders
  it by the key first and by \<open>R\<close> among equal keys.
\<close>

lemma insort_key_lex:
  assumes "sorted_wrt (\<lambda>a b. f a < f b \<or> (f a = f b \<and> R a b)) ys"
    and "\<forall>y \<in> set ys. R x y"
  shows "sorted_wrt (\<lambda>a b. f a < f b \<or> (f a = f b \<and> R a b)) (insort_key f x ys)"
  using assms
proof (induction ys)
  case Nil
  show ?case by simp
next
  case (Cons y ys)
  show ?case
  proof (cases "f x \<le> f y")
    case True
    have "\<forall>z \<in> set (y # ys). f x < f z \<or> (f x = f z \<and> R x z)"
      using True Cons.prems by (fastforce simp: le_less)
    then show ?thesis using True Cons.prems(1) by simp
  next
    case False
    have "sorted_wrt (\<lambda>a b. f a < f b \<or> (f a = f b \<and> R a b)) (insort_key f x ys)"
      using Cons by simp
    moreover have "\<forall>z \<in> set (insort_key f x ys). f y < f z \<or> (f y = f z \<and> R y z)"
      using False Cons.prems(1) by (auto simp: set_insort_key)
    ultimately show ?thesis using False by simp
  qed
qed

lemma sort_key_lex:
  fixes f :: "'a \<Rightarrow> int"
  assumes "sorted_wrt R xs"
  shows "sorted_wrt (\<lambda>a b. f a < f b \<or> (f a = f b \<and> R a b)) (sort_key f xs)"
  using assms
proof (induction xs)
  case Nil
  show ?case by simp
next
  case (Cons x xs)
  then show ?case by (simp add: insort_key_lex)
qed

text \<open>
  Claim C2. For every record list and every period, the state summaries that
  \<open>aggregateByState\<close> returns are in descending order of \<open>totalUpdates\<close>, and of
  two states with equal \<open>totalUpdates\<close> the one that appears first among the
  records of the period comes first. The positions \<open>i < j\<close> range over the
  output.
\<close>

theorem aggregateByState_order:
  assumes "i < j" and "j < length (aggregateByState records period)"
  shows "totalUpdates (aggregateByState records period ! j)
           \<le> totalUpdates (aggregateByState records period ! i) \<and>
         (totalUpdates (aggregateByState records period ! i)
            = totalUpdates (aggregateByState records period ! j) \<longrightarrow>
          first_index (state (aggregateByState records period ! i))
              (map State (filter (\<lambda>r. Month r = period) records))
            < first_index (state (aggregateByState records period ! j))
                (map State (filter (\<lambda>r. Month r = period) records)))"
proof -
  let ?ns = "map State (filter (\<lambda>r. Month r = period) records)"
  let ?R = "\<lambda>a b. first_index (state a) ?ns < first_index (state b) ?ns"
  let ?pre = "fst (aggregate_run records period)"
  have names: "map state ?pre = map fst (buildStateMap (filter (\<lambda>r. Month r = period) records))"
    by (simp add: aggregate_run_fst statesBefore_def state_classified comp_def)
  have "sorted_wrt (\<lambda>a b. first_index a ?ns < first_index b ?ns) (map state ?pre)"
    unfolding names using buildStateMap_keys by blast
  then have pre: "sorted_wrt ?R ?pre" by (simp add: sorted_wrt_map)
  have "sorted_wrt (\<lambda>a b. - totalUpdates a < - totalUpdates b \<or>
           (- totalUpdates a = - totalUpdates b \<and> ?R a b)) (aggregateByState records period)"
    unfolding aggregateByState_def using pre by (rule sort_key_lex)
  from sorted_wrt_nth_less [OF this assms]
  show ?thesis by auto
qed

text \<open>
  On the sample: Goa is seen before Delhi, Delhi has the largest total and comes
  first, Goa and Kerala tie and keep the order in which they were seen.
\<close>

theorem aggregateByState_order_witness:
  "(1 :: nat) < 2 \<and> 2 < length (aggregateByState sample_records ''2024-01'') \<and>
   map State (filter (\<lambda>r. Month r = ''2024-01'') sample_records)
     = [''Goa'', ''Delhi'', ''Delhi'', ''Kerala''] \<and>
   map state (aggregateByState sample_records ''2024-01'') = [''Delhi'', ''Goa'', ''Kerala''] \<and>
   map totalUpdates (aggregateByState sample_records ''2024-01'') = [600, 100, 100] \<and>
   first_index (state (aggregateByState sample_records ''2024-01'' ! 1))
       (map State (filter (\<lambda>r. Month r = ''2024-01'') sample_records))
     < first_index (state (aggregateByState sample_records ''2024-01'' ! 2))
         (map State (filter (\<lambda>r. Month r = ''2024-01'') sample_records))"
proof -
  have len: "2 < length (aggregateByState sample_records ''2024-01'')"
    by code_simp
  have ev: "map State (filter (\<lambda>r. Month r = ''2024-01'') sample_records)
              = [''Goa'', ''Delhi'', ''Delhi'', ''Kerala'']"
    "map state (aggregateByState sample_records ''2024-01'') = [''Delhi'', ''Goa'', ''Kerala'']"
    "map totalUpdates (aggregateByState sample_records ''2024-01'') = [600, 100, 100]"
    by code_simp+
  have tie: "totalUpdates (aggregateByState sample_records ''2024-01'' ! 1)
               = totalUpdates (aggregateByState sample_records ''2024-01'' ! 2)"
    by code_simp
  have lt: "(1 :: nat) < 2" by simp
  from aggregateByState_order [OF lt len] tie len ev show ?thesis by simp
qed

subsection \<open>The calls of the classifier\<close>

lemma district_total_member:
  "s \<in> set states \<Longrightarrow> d \<in> set (districts s) \<Longrightarrow>
   totalUpdates d \<in> set (districtTotalsOf states)"
  by (auto simp: districtTotalsOf_def)

text \<open>
  Claim C7. For every record list and every period, every call of
  \<open>calculateIntensity\<close> that \<open>aggregateByState\<close> makes passes a reference list
  that is not empty: the list holds the very value that is classified (a
  state's total among the totals of all states, a district's total among the
  totals of all districts), so the case of the empty reference list is never
  reached.
\<close>

theorem intensity_calls_nonempty:
  assumes "(v, refs) \<in> set (intensity_calls records period)"
  shows "refs \<noteq> [] \<and> v \<in> set refs"
proof -
  let ?S = "statesBefore records period"
  from assms obtain s where s: "s \<in> set ?S"
    and c: "(v, refs) = (totalUpdates s, totalsOf ?S) \<or>
            (\<exists>d \<in> set (districts s). (v, refs) = (totalUpdates d, districtTotalsOf ?S))"
    unfolding intensity_calls_def aggregate_run_snd by auto
  from c have "v \<in> set refs"
  proof
    assume "(v, refs) = (totalUpdates s, totalsOf ?S)"
    then show ?thesis using s by (auto simp: totalsOf_def)
  next
    assume "\<exists>d \<in> set (districts s). (v, refs) = (totalUpdates d, districtTotalsOf ?S)"
    then show ?thesis using s district_total_member by blast
  qed
  then show ?thesis by auto
qed

text \<open>
  On the sample the function makes seven calls, one for each of the three states
  and of the four districts; the call for Delhi is among them.
\<close>

theorem intensity_calls_nonempty_witness:
  "(600, [100, 600, 100]) \<in> set (intensity_calls sample_records ''2024-01'') \<and>
   length (intensity_calls sample_records ''2024-01'') = 7 \<and>
   [100, 600, 100 :: int] \<noteq> [] \<and> (600 :: int) \<in> set [100, 600, 100]"
proof -
  have mem: "(600, [100, 600, 100]) \<in> set (intensity_calls sample_records ''2024-01'')"
    by code_simp
  have len: "length (intensity_calls sample_records ''2024-01'') = 7"
    by code_simp
  from intensity_calls_nonempty [OF mem] mem len show ?thesis by simp
qed

subsection \<open>A period with no record\<close>

lemma aggregateByState_no_match:
  assumes "period \<notin> set (map Month records)"
  shows "aggregateByState records period = []"
proof -
  have "filter (\<lambda>r. Month r = period) records = []"
    using assms by (auto simp: filter_empty_conv)
  then show ?thesis
    by (simp add: aggregateByState_def aggregate_run_def buildStateMap_def)
qed

lemma decimal_zero: "decimal 0 = ''0''"
  by code_simp

lemma formatNumber_zero: "formatNumber js 0 = ''0''"
  by (simp add: formatNumber_def toString_def decimal_zero)

text \<open>
  Claim C8. For every record list and every period that is the \<open>Month\<close> of no
  record, \<open>aggregateByState\<close> returns the empty list, and \<open>formatNumber(0)\<close> is
  the string \<open>0\<close>. The third part is the total of the page, the sum of the
  \<open>totalUpdates\<close> of the returned states, as the formatter shows it.
\<close>

theorem aggregateByState_absent_period:
  assumes "period \<notin> set (map Month records)"
  shows "aggregateByState records period = [] \<and>
         formatNumber js 0 = ''0'' \<and>
         formatNumber js (foldl (\<lambda>sum s. sum + totalUpdates s) 0
                            (aggregateByState records period)) = ''0''"
  using aggregateByState_no_match [OF assms] formatNumber_zero [of js] by simp

theorem aggregateByState_absent_period_witness:
  "''2023-12'' \<notin> set (map Month sample_records) \<and>
   aggregateByState sample_records ''2023-12'' = [] \<and>
   formatNumber example_builtins 0 = ''0''"
proof -
  have a: "''2023-12'' \<notin> set (map Month sample_records)" by code_simp
  from aggregateByState_absent_period [OF a, of example_builtins] a show ?thesis by simp
qed

section \<open>Classification\<close>

lemma floor_percent: "nat \<lfloor>(of_nat p / 100 :: rat) * of_nat n\<rfloor> = (n * p) div 100"
proof -
  have "(of_nat p / 100 :: rat) * of_nat n = of_int (int (n * p)) / of_int 100"
    by simp
  then have "\<lfloor>(of_nat p / 100 :: rat) * of_nat n\<rfloor> = int (n * p) div 100"
    by (simp only: floor_divide_of_int_eq)
  also have "\<dots> = int ((n * p) div 100)" by (simp add: zdiv_int)
  finally show ?thesis by (simp only: nat_int)
qed

lemma index33_floor: "nat \<lfloor>(33 / 100 :: rat) * of_nat n\<rfloor> = index33 n"
  using floor_percent [of 33 n] by (simp add: index33_def)

lemma index66_floor: "nat \<lfloor>(66 / 100 :: rat) * of_nat n\<rfloor> = index66 n"
  using floor_percent [of 66 n] by (simp add: index66_def)

lemma index33_less: "0 < n \<Longrightarrow> index33 n < n"
  by (simp add: index33_def)

lemma index66_less: "0 < n \<Longrightarrow> index66 n < n"
  by (simp add: index66_def)

lemma calculateIntensity_nonempty:
  assumes "vs \<noteq> []"
  shows "calculateIntensity v vs = classify_spec v vs"
proof -
  have n: "0 < length (sort vs)" using assms by simp
  have a: "at_index (sort vs) (index33 (length (sort vs))) = Some (sort vs ! index33 (length vs))"
    and b: "at_index (sort vs) (index66 (length (sort vs))) = Some (sort vs ! index66 (length vs))"
    using index33_less [OF n] index66_less [OF n] by (simp_all add: at_index_def)
  show ?thesis
    unfolding calculateIntensity_def classify_spec_def Let_def a b index33_floor index66_floor
    by (simp add: le_maybe_def)
qed

lemma calculateIntensity_store_eq:
  assumes "values < length st"
  shows "calculateIntensity_store st v values =
           (calculateIntensity v (st ! values), st @ [sort (st ! values)])"
proof -
  have c: "(st @ [st ! values]) [length st := sort ((st @ [st ! values]) ! length st)]
             = st @ [sort (st ! values)]"
    by simp
  show ?thesis
    unfolding calculateIntensity_store_def calculateIntensity_def Let_def c by simp
qed

text \<open>
  Claim C3. For every value and every reference list that is not empty,
  \<open>calculateIntensity\<close> sorts a copy of the list ascending, takes the cut points
  at the indices \<open>floor(0.33 \<times> length)\<close> and \<open>floor(0.66 \<times> length)\<close>, and
  returns \<open>low\<close> for a value up to the first, \<open>medium\<close> for a value above the
  first and up to the second, \<open>high\<close> otherwise; the caller's list, the array
  \<open>values\<close> of the store, is the same after the call.
\<close>

theorem calculateIntensity_spec:
  assumes "vs \<noteq> []" and "values < length st" and "st ! values = vs"
  shows "calculateIntensity v vs = classify_spec v vs \<and>
         calculateIntensity_store st v values = (calculateIntensity v vs, st @ [sort vs]) \<and>
         snd (calculateIntensity_store st v values) ! values = vs"
  using calculateIntensity_nonempty [OF assms(1)] calculateIntensity_store_eq [OF assms(2)]
    assms(2,3)
  by (simp add: nth_append)

text \<open>
  Three reference values: both cut points are the value 100, so 100 is \<open>low\<close>
  and 600 is \<open>high\<close>, and the caller's array is still in its own order.
\<close>

theorem calculateIntensity_spec_witness:
  "[100, 600, 100 :: int] \<noteq> [] \<and> (0 :: nat) < length [[100, 600, 100 :: int]] \<and>
   [[100, 600, 100 :: int]] ! 0 = [100, 600, 100] \<and>
   calculateIntensity 100 [100, 600, 100] = Low \<and>
   classify_spec 100 [100, 600, 100] = Low \<and>
   calculateIntensity 600 [100, 600, 100] = High \<and>
   calculateIntensity_store [[100, 600, 100]] 100 0 = (Low, [[100, 600, 100], [100, 100, 600]])"
proof -
  have a: "[100, 600, 100 :: int] \<noteq> []" by simp
  have b: "(0 :: nat) < length [[100, 600, 100 :: int]]" by simp
  have c: "[[100, 600, 100 :: int]] ! 0 = [100, 600, 100]" by simp
  have d: "calculateIntensity 100 [100, 600, 100] = Low"
    "calculateIntensity 600 [100, 600, 100] = High"
    "sort [100, 600, 100 :: int] = [100, 100, 600]"
    by code_simp+
  from calculateIntensity_spec [OF a b c, of 100] a b c d show ?thesis by simp
qed

text \<open>
  Claim C4. For all counts, \<open>getDominantAgeGroup\<close> returns \<open>Adult (18+)\<close> when
  the third count is the maximum of the three, otherwise \<open>Youth (5-17)\<close> when
  the second is, otherwise \<open>Child (0-5)\<close>; so (10, 10, 10) gives Adult,
  (10, 10, 5) Youth, (5, 10, 10) Adult and (10, 5, 5) Child.
\<close>

theorem getDominantAgeGroup_spec:
  "getDominantAgeGroup low mid high =
     (if high = max low (max mid high) then ''Adult (18+)''
      else if mid = max low (max mid high) then ''Youth (5-17)''
      else ''Child (0-5)'') \<and>
   getDominantAgeGroup 10 10 10 = ''Adult (18+)'' \<and>
   getDominantAgeGroup 10 10 5 = ''Youth (5-17)'' \<and>
   getDominantAgeGroup 5 10 10 = ''Adult (18+)'' \<and>
   getDominantAgeGroup 10 5 5 = ''Child (0-5)''"
  by (simp add: getDominantAgeGroup_def Let_def eq_commute)

section \<open>Alerts\<close>

lemma alertStep_key:
  "map alert_key (alertStep js s alerts d) =
     map alert_key alerts @
       (case first_rule d of None \<Rightarrow> [] | Some sev \<Rightarrow> [(state s, district d, sev)])"
  by (simp add: alertStep_def first_rule_def ratio_exceeds_def Let_def alert_key_def)

lemma foldl_alertStep_key:
  "map alert_key (foldl (alertStep js s) alerts ds) =
     map alert_key alerts @
       List.map_filter (\<lambda>d. map_option (\<lambda>sev. (state s, district d, sev)) (first_rule d)) ds"
proof (induction ds arbitrary: alerts)
  case Nil
  show ?case by simp
next
  case (Cons d ds)
  show ?case
    by (cases "first_rule d") (simp_all add: Cons.IH alertStep_key)
qed

lemma foldl_states_key:
  "map alert_key (foldl (\<lambda>alerts s. foldl (alertStep js s) alerts (districts s)) alerts states) =
     map alert_key alerts @
       concat (map (\<lambda>s. List.map_filter
                           (\<lambda>d. map_option (\<lambda>sev. (state s, district d, sev)) (first_rule d))
                           (districts s))
                 states)"
  by (induction states arbitrary: alerts) (simp_all add: foldl_alertStep_key)

text \<open>
  Claim C5. For every list of state summaries, \<open>getDemographicAlerts\<close> visits
  the districts state by state and, for each district, applies only the first
  rule that matches, in the order: \<open>age0_5 / total > 0.40\<close> gives the severity
  \<open>high\<close>; else \<open>age18Plus / total > 0.75\<close> gives \<open>medium\<close>; else
  \<open>age5_17 / total > 0.35\<close> gives \<open>medium\<close>; a district that matches no rule
  gives no alert; the result is the first alerts of that traversal, five at
  most.
\<close>

theorem getDemographicAlerts_spec:
  "map alert_key (getDemographicAlerts js states) = alerts_spec states"
proof -
  have "map alert_key (getDemographicAlerts js states) =
          take 5 (map alert_key (allAlerts js states))"
    by (simp add: getDemographicAlerts_def take_map)
  also have "map alert_key (allAlerts js states) =
          concat (map (\<lambda>s. List.map_filter
                           (\<lambda>d. map_option (\<lambda>sev. (state s, district d, sev)) (first_rule d))
                           (districts s))
                 states)"
    unfolding allAlerts_def by (simp add: foldl_states_key)
  finally show ?thesis by (simp add: alerts_spec_def)
qed

text \<open>
  On the sample, North of Delhi has 300 of 500 in the first bracket and South
  of Delhi 90 of 100 in the third; the two other districts match no rule.
\<close>

lemma getDemographicAlerts_sample:
  "getDemographicAlerts example_builtins (aggregateByState sample_records ''2024-01'') =
     [\<lparr>alert_state = ''Delhi'', alert_district = ''North'',
       alert = ''High child enrollment (60%)'', alert_severity = High\<rparr>,
      \<lparr>alert_state = ''Delhi'', alert_district = ''South'',
       alert = ''Adult-heavy updates (90%)'', alert_severity = Medium\<rparr>]"
  by code_simp

subsection \<open>A district whose total is zero\<close>

lemma zero_total_ratio:
  "c \<le> 0 \<Longrightarrow> \<not> greater_number (divide_number (of_count c) (of_count 0)) (Finite t)"
  by (simp add: of_count_def)

text \<open>
  Claim C10, as the code has it. A district whose \<open>totalUpdates\<close> is 0 and none
  of whose three bracket counts is positive produces no alert: each quotient is
  not-a-number or the negative infinity, no comparison holds, and the body of
  the loop leaves the array of alerts as it was. (With non-negative counts that
  sum to the total, a total of 0 means that all three counts are 0.)
\<close>

theorem zero_total_no_alert:
  assumes "totalUpdates d = 0" and "age0_5 d \<le> 0" and "age5_17 d \<le> 0" and "age18Plus d \<le> 0"
  shows "alertStep js s alerts d = alerts \<and> first_rule d = None"
  using assms
  by (simp add: alertStep_def first_rule_def ratio_exceeds_def Let_def zero_total_ratio)

theorem zero_total_no_alert_witness:
  "totalUpdates (hd (districts (hd (aggregateByState zero_records ''2024-01'')))) = 0 \<and>
   age0_5 (hd (districts (hd (aggregateByState zero_records ''2024-01'')))) \<le> 0 \<and>
   age5_17 (hd (districts (hd (aggregateByState zero_records ''2024-01'')))) \<le> 0 \<and>
   age18Plus (hd (districts (hd (aggregateByState zero_records ''2024-01'')))) \<le> 0 \<and>
   alertStep example_builtins (hd (aggregateByState zero_records ''2024-01'')) []
     (hd (districts (hd (aggregateByState zero_records ''2024-01'')))) = []"
proof -
  have a: "totalUpdates (hd (districts (hd (aggregateByState zero_records ''2024-01'')))) = 0"
    and b: "age0_5 (hd (districts (hd (aggregateByState zero_records ''2024-01'')))) \<le> 0"
    and c: "age5_17 (hd (districts (hd (aggregateByState zero_records ''2024-01'')))) \<le> 0"
    and d: "age18Plus (hd (districts (hd (aggregateByState zero_records ''2024-01'')))) \<le> 0"
    by code_simp+
  from zero_total_no_alert [OF a b c d] a b c d show ?thesis by blast
qed

text \<open>
  Claim C10 as it is stated fails. The record with the counts 5, -5 and 0 gives
  a district whose \<open>totalUpdates\<close> is 0; its first quotient is 5 / 0, the
  positive infinity, which is greater than 0.4, and the district gets an alert
  of severity \<open>high\<close>.
\<close>

theorem zero_total_alert_counterexample:
  "map totalUpdates (concat (map districts (aggregateByState negative_records ''2024-01''))) = [0] \<and>
   getDemographicAlerts example_builtins (aggregateByState negative_records ''2024-01'') =
     [\<lparr>alert_state = ''Goa'', alert_district = ''Panaji'',
       alert = ''High child enrollment (Infinity%)'', alert_severity = High\<rparr>]"
  by code_simp

section \<open>Recommendations\<close>

lemma recommendStep_append:
  "recommendStep js avg med mon s recs d = recs @ recommendStep js avg med mon s [] d"
  by (simp add: recommendStep_def Let_def)

lemma recommendStep_member:
  assumes "r \<in> set (recommendStep js avg med mon s [] d)"
  shows "severity r = (if greater_number (of_count (totalUpdates d)) (times_number avg (Finite 2))
                       then High else Medium) \<and>
         expectedImpact r =
           (if greater_number (of_count (totalUpdates d)) (times_number avg (Finite 2))
            then impact_high else impact_medium)"
  using assms by (simp add: recommendStep_def Let_def split: if_splits)

lemma foldl_recommendStep:
  "foldl (recommendStep js avg med mon s) recs ds =
     recs @ concat (map (recommendStep js avg med mon s []) ds)"
proof (induction ds arbitrary: recs)
  case Nil
  show ?case by simp
next
  case (Cons d ds)
  show ?case
    unfolding foldl_Cons Cons.IH
    using recommendStep_append [of js avg med mon s recs d] by simp
qed

lemma foldl_recommendState:
  "foldl (recommendState js avg mon) recs states =
     recs @ concat (map (\<lambda>s. concat (map (recommendStep js avg (averageTotal (districts s)) mon s [])
                                        (filter (\<lambda>d. intensity d = High) (districts s))))
                     states)"
  by (induction states arbitrary: recs)
     (simp_all add: recommendState_def Let_def foldl_recommendStep)

lemma allRecommendations_concat:
  "allRecommendations js states monthStr =
     concat (map (\<lambda>s. concat (map (emitted js states monthStr s)
                                 (filter (\<lambda>d. intensity d = High) (districts s))))
               states)"
  unfolding allRecommendations_def Let_def emitted_def
  by (simp add: foldl_recommendState)

lemma allRecommendations_severity:
  assumes "r \<in> set (allRecommendations js states monthStr)"
  shows "severity r = High \<or> severity r = Medium"
proof -
  from assms obtain s d where "r \<in> set (emitted js states monthStr s d)"
    unfolding allRecommendations_concat by auto
  then show ?thesis
    unfolding emitted_def using recommendStep_member by (metis (full_types))
qed

text \<open>A stable sort by a key with the two values 0 and 1.\<close>

lemma insort_key_front:
  "\<forall>y \<in> set ys. f x \<le> f y \<Longrightarrow> insort_key f x ys = x # ys"
  by (cases ys) simp_all

lemma insort_key_skip:
  "\<forall>y \<in> set xs. f y < f x \<Longrightarrow> insort_key f x (xs @ ys) = xs @ insort_key f x ys"
  by (induction xs) auto

lemma sort_key_two:
  fixes f :: "'a \<Rightarrow> nat"
  assumes "\<forall>x \<in> set xs. f x = 0 \<or> f x = 1"
  shows "sort_key f xs = filter (\<lambda>x. f x = 0) xs @ filter (\<lambda>x. f x = 1) xs"
  using assms
proof (induction xs)
  case Nil
  show ?case by simp
next
  case (Cons x xs)
  then have ih: "sort_key f xs = filter (\<lambda>x. f x = 0) xs @ filter (\<lambda>x. f x = 1) xs"
    by simp
  from Cons.prems have "f x = 0 \<or> f x = 1" by simp
  then show ?case
  proof
    assume z: "f x = 0"
    then show ?thesis by (simp add: ih insort_key_front)
  next
    assume o: "f x = 1"
    have "insort_key f x (filter (\<lambda>x. f x = 0) xs @ filter (\<lambda>x. f x = 1) xs)
            = filter (\<lambda>x. f x = 0) xs @ insort_key f x (filter (\<lambda>x. f x = 1) xs)"
      by (rule insort_key_skip) (simp add: o)
    also have "insort_key f x (filter (\<lambda>x. f x = 1) xs) = x # filter (\<lambda>x. f x = 1) xs"
      by (rule insort_key_front) (simp add: o)
    finally show ?thesis by (simp add: ih o)
  qed
qed

lemma generateRecommendations_order:
  "generateRecommendations js states monthStr =
     take 4 (filter (\<lambda>r. severity r = High) (allRecommendations js states monthStr) @
             filter (\<lambda>r. severity r = Medium) (allRecommendations js states monthStr))"
proof -
  let ?all = "allRecommendations js states monthStr"
  let ?f = "\<lambda>r. if severity r = High then 0 else (1 :: nat)"
  have "sort_key ?f ?all = filter (\<lambda>r. ?f r = 0) ?all @ filter (\<lambda>r. ?f r = 1) ?all"
    by (rule sort_key_two) simp
  moreover have "filter (\<lambda>r. ?f r = 0) ?all = filter (\<lambda>r. severity r = High) ?all"
    by (rule filter_cong) simp_all
  moreover have "filter (\<lambda>r. ?f r = 1) ?all = filter (\<lambda>r. severity r = Medium) ?all"
    by (rule filter_cong) (use allRecommendations_severity in auto)
  ultimately show ?thesis by (simp add: generateRecommendations_def)
qed

text \<open>
  Claim C6. Every recommendation that \<open>generateRecommendations\<close> makes for a
  district has the severity \<open>high\<close> exactly when the district's
  \<open>totalUpdates\<close> is greater than twice the average total of all districts,
  and then the expected impact of the \<open>high\<close> tier; otherwise it has the
  severity \<open>medium\<close> and the expected impact of the \<open>medium\<close> tier. The array
  of all recommendations lists those of the districts of intensity \<open>high\<close> in
  the order of the loops; the result puts its \<open>high\<close> recommendations before
  its \<open>medium\<close> ones, each group in the order in which it was made, and keeps
  the first four.
\<close>

theorem generateRecommendations_spec:
  assumes "r \<in> set (emitted js states monthStr s d)"
  shows "(severity r = High \<longleftrightarrow>
            greater_number (of_count (totalUpdates d))
              (times_number (averageTotal (concat (map districts states))) (Finite 2))) \<and>
         (severity r = High \<longrightarrow> expectedImpact r = impact_high) \<and>
         (severity r \<noteq> High \<longrightarrow> severity r = Medium \<and> expectedImpact r = impact_medium) \<and>
         allRecommendations js states monthStr =
           concat (map (\<lambda>s. concat (map (emitted js states monthStr s)
                                       (filter (\<lambda>d. intensity d = High) (districts s))))
                     states) \<and>
         generateRecommendations js states monthStr =
           take 4 (filter (\<lambda>r. severity r = High) (allRecommendations js states monthStr) @
                   filter (\<lambda>r. severity r = Medium) (allRecommendations js states monthStr)) \<and>
         length (generateRecommendations js states monthStr) \<le> 4"
proof -
  let ?hi = "greater_number (of_count (totalUpdates d))
               (times_number (averageTotal (concat (map districts states))) (Finite 2))"
  from assms have m: "severity r = (if ?hi then High else Medium) \<and>
         expectedImpact r = (if ?hi then impact_high else impact_medium)"
    unfolding emitted_def by (rule recommendStep_member)
  have sev: "severity r = High \<longleftrightarrow> ?hi" using m by (simp split: if_splits)
  have hi: "severity r = High \<longrightarrow> expectedImpact r = impact_high"
    using m by (simp split: if_splits)
  have med: "severity r \<noteq> High \<longrightarrow> severity r = Medium \<and> expectedImpact r = impact_medium"
    using m by (simp split: if_splits)
  have len: "length (generateRecommendations js states monthStr) \<le> 4"
    by (simp add: generateRecommendations_def)
  from sev hi med len allRecommendations_concat [of js states monthStr]
    generateRecommendations_order [of js states monthStr]
  show ?thesis by blast
qed

text \<open>
  On the sample the average total of the four districts is 200. North of Delhi,
  the one district of intensity \<open>high\<close>, has the total 500, more than twice the
  average: its recommendation is the only one, with the severity \<open>high\<close>.
\<close>

theorem generateRecommendations_spec_witness:
  "hd (generateRecommendations example_builtins sample_states ''2024-01'')
     \<in> set (emitted example_builtins sample_states ''2024-01''
              (hd sample_states) (hd (districts (hd sample_states)))) \<and>
   district (hd (districts (hd sample_states))) = ''North'' \<and>
   totalUpdates (hd (districts (hd sample_states))) = 500 \<and>
   averageTotal (concat (map districts sample_states)) = Finite 200 \<and>
   length (generateRecommendations example_builtins sample_states ''2024-01'') = 1 \<and>
   location (hd (generateRecommendations example_builtins sample_states ''2024-01''))
     = ''North, Delhi'' \<and>
   month (hd (generateRecommendations example_builtins sample_states ''2024-01''))
     = ''January 2024'' \<and>
   severity (hd (generateRecommendations example_builtins sample_states ''2024-01'')) = High \<and>
   expectedImpact (hd (generateRecommendations example_builtins sample_states ''2024-01''))
     = impact_high"
proof -
  have mem: "hd (generateRecommendations example_builtins sample_states ''2024-01'')
     \<in> set (emitted example_builtins sample_states ''2024-01''
              (hd sample_states) (hd (districts (hd sample_states))))"
    by code_simp
  have ev: "district (hd (districts (hd sample_states))) = ''North''"
    "totalUpdates (hd (districts (hd sample_states))) = 500"
    "averageTotal (concat (map districts sample_states)) = Finite 200"
    "length (generateRecommendations example_builtins sample_states ''2024-01'') = 1"
    "location (hd (generateRecommendations example_builtins sample_states ''2024-01''))
       = ''North, Delhi''"
    "month (hd (generateRecommendations example_builtins sample_states ''2024-01''))
       = ''January 2024''"
    "severity (hd (generateRecommendations example_builtins sample_states ''2024-01'')) = High"
    by code_simp+
  from generateRecommendations_spec [OF mem] mem ev show ?thesis by blast
qed

section \<open>Parsing\<close>

subsection \<open>Decimal digits\<close>

lemma of_char_digit_char: "d < 10 \<Longrightarrow> (of_char (digit_char d) :: nat) = 48 + d"
  by (simp add: digit_char_def)

lemma is_digit_digit_char: "d < 10 \<Longrightarrow> is_digit (digit_char d)"
  by (simp add: is_digit_def of_char_digit_char)

lemma digit_value_digit_char: "d < 10 \<Longrightarrow> digit_value (digit_char d) = d"
  by (simp add: digit_value_def of_char_digit_char)

lemma is_digit_not_special:
  assumes "is_digit c"
  shows "\<not> is_space c" and "c \<noteq> CHR '',''" and "c \<noteq> CHR 0x22" and "c \<noteq> CHR 0x0A"
    and "c \<noteq> CHR ''+''" and "c \<noteq> CHR ''-''"
  using assms by (auto simp: is_digit_def is_space_def)

lemma decimal_digits: "c \<in> set (decimal n) \<Longrightarrow> is_digit c"
proof (induction n arbitrary: c rule: decimal.induct)
  case (1 n)
  show ?case
  proof (cases "n < 10")
    case True
    with "1.prems" show ?thesis by (simp add: decimal.simps [of n] is_digit_digit_char)
  next
    case False
    with "1.prems" "1.IH" show ?thesis
      by (auto simp add: decimal.simps [of n] is_digit_digit_char)
  qed
qed

lemma decimal_nonempty: "decimal n \<noteq> []"
  by (subst decimal.simps) simp

lemma decimal_value: "foldl (\<lambda>acc c. 10 * acc + digit_value c) 0 (decimal n) = n"
proof (induction n rule: decimal.induct)
  case (1 n)
  show ?case
  proof (cases "n < 10")
    case True
    then show ?thesis by (simp add: decimal.simps [of n] digit_value_digit_char)
  next
    case False
    with "1.IH" show ?thesis
      by (simp add: decimal.simps [of n] digit_value_digit_char)
  qed
qed

text \<open>\<open>parseInt\<close> reads back what \<open>toString\<close> writes for a natural number.\<close>

lemma parseInt_decimal: "parseInt (decimal n) = Some (int n)"
proof -
  obtain c cs where d: "decimal n = c # cs" using decimal_nonempty by (cases "decimal n") auto
  have c: "is_digit c" using decimal_digits [of c n] d by simp
  have all: "takeWhile is_digit (decimal n) = decimal n"
    using decimal_digits by simp
  have dw: "dropWhile is_space (decimal n) = decimal n"
    using is_digit_not_special(1) [OF c] d by simp
  have hd: "hd (decimal n) \<noteq> CHR ''+''" "hd (decimal n) \<noteq> CHR ''-''"
    using is_digit_not_special(5,6) [OF c] d by simp_all
  have s2: "(if decimal n \<noteq> [] \<and> (hd (decimal n) = CHR ''+'' \<or> hd (decimal n) = CHR ''-'')
             then tl (decimal n) else decimal n) = decimal n"
    using hd by simp
  show ?thesis
    unfolding parseInt_def Let_def dw s2 all using hd decimal_nonempty [of n]
    by (simp add: decimal_value)
qed

subsection \<open>Trimming and splitting\<close>

lemma dropWhile_hd: "xs \<noteq> [] \<Longrightarrow> \<not> P (hd xs) \<Longrightarrow> dropWhile P xs = xs"
  by (cases xs) simp_all

lemma trim_id:
  assumes "xs \<noteq> []" and "\<not> is_space (hd xs)" and "\<not> is_space (last xs)"
  shows "trim xs = xs"
proof -
  have a: "dropWhile is_space xs = xs" using assms(1,2) by (rule dropWhile_hd)
  have "dropWhile is_space (rev xs) = rev xs"
    using assms(1,3) by (intro dropWhile_hd) (simp_all add: hd_rev)
  then show ?thesis by (simp add: trim_def a)
qed

lemma trim_decimal: "trim (decimal n) = decimal n"
proof (rule trim_id)
  show ne: "decimal n \<noteq> []" by (rule decimal_nonempty)
  from ne have "hd (decimal n) \<in> set (decimal n)" "last (decimal n) \<in> set (decimal n)"
    by simp_all
  then show "\<not> is_space (hd (decimal n))" "\<not> is_space (last (decimal n))"
    using decimal_digits is_digit_not_special(1) by blast+
qed

lemma trim_text:
  assumes "\<exists>c \<in> set h. \<not> is_space c" and "line \<noteq> []" and "\<not> is_space (last line)"
  shows "trim (h @ CHR 0x0A # line) = dropWhile is_space h @ CHR 0x0A # line"
proof -
  from assms(1) obtain c where "c \<in> set h" "\<not> is_space c" by blast
  then have a: "dropWhile is_space (h @ CHR 0x0A # line) = dropWhile is_space h @ CHR 0x0A # line"
    by (rule dropWhile_append1)
  have "dropWhile is_space (rev line @ CHR 0x0A # rev (dropWhile is_space h))
          = rev line @ CHR 0x0A # rev (dropWhile is_space h)"
    using assms(2,3) by (intro dropWhile_hd) (simp_all add: hd_append hd_rev)
  then show ?thesis by (simp add: trim_def a)
qed

lemma split_on_none: "sep \<notin> set xs \<Longrightarrow> split_on sep xs = [xs]"
  by (induction xs) auto

lemma split_on_first:
  "sep \<notin> set xs \<Longrightarrow> split_on sep (xs @ sep # ys) = xs # split_on sep ys"
  by (induction xs) auto

subsection \<open>A line of plain fields\<close>

lemma loop_field:
  assumes "CHR '','' \<notin> set f" and "CHR 0x22 \<notin> set f"
  shows "parseCSVLine_loop (f @ CHR '','' # rest) result current False =
           parseCSVLine_loop rest (result @ [trim (current @ f)]) [] False"
  using assms by (induction f arbitrary: current) auto

lemma loop_last:
  assumes "CHR '','' \<notin> set f" and "CHR 0x22 \<notin> set f"
  shows "parseCSVLine_loop f result current False = result @ [trim (current @ f)]"
  using assms by (induction f arbitrary: current) auto

lemma plain_decimal: "plain_field (decimal n)"
  unfolding plain_field_def using decimal_digits is_digit_not_special(2,3,4) by blast

lemma parseCSVLine_csv_line:
  assumes "plain_field (Month r)" and "plain_field (State r)" and "plain_field (District r)"
  shows "parseCSVLine (csv_line r) =
           [trim (Month r), trim (State r), trim (District r),
            decimal (Age_0_5 r), decimal (Age_5_17 r), decimal (Age_18_plus r)]"
proof -
  note p = assms [unfolded plain_field_def] plain_decimal [unfolded plain_field_def]
  have "parseCSVLine (csv_line r) =
          parseCSVLine_loop (Month r @ CHR '','' # State r @ CHR '','' # District r @ CHR '','' #
            decimal (Age_0_5 r) @ CHR '','' # decimal (Age_5_17 r) @ CHR '','' #
            decimal (Age_18_plus r)) [] [] False"
    by (simp add: parseCSVLine_def csv_line_def)
  also have "\<dots> = [trim (Month r), trim (State r), trim (District r),
            trim (decimal (Age_0_5 r)), trim (decimal (Age_5_17 r)),
            trim (decimal (Age_18_plus r))]"
    using p by (simp add: loop_field loop_last)
  finally show ?thesis by (simp add: trim_decimal)
qed

lemma csv_line_last: "csv_line r \<noteq> [] \<and> \<not> is_space (last (csv_line r))"
proof -
  have ne: "decimal (Age_18_plus r) \<noteq> []" by (rule decimal_nonempty)
  then have "last (decimal (Age_18_plus r)) \<in> set (decimal (Age_18_plus r))" by simp
  then have "\<not> is_space (last (decimal (Age_18_plus r)))"
    using decimal_digits is_digit_not_special(1) by blast
  then show ?thesis using ne by (simp add: csv_line_def)
qed

lemma csv_line_no_newline:
  assumes "plain_field (Month r)" and "plain_field (State r)" and "plain_field (District r)"
  shows "CHR 0x0A \<notin> set (csv_line r)"
  using assms plain_decimal [of "Age_0_5 r"] plain_decimal [of "Age_5_17 r"]
    plain_decimal [of "Age_18_plus r"]
  by (simp add: csv_line_def plain_field_def)

lemma parseRecord_csv_line:
  assumes "plain_field (Month r)" and "plain_field (State r)" and "plain_field (District r)"
  shows "parseRecord (csv_line r) =
           Inr \<lparr>Month = trim (Month r),
                State = normalizeCase (trim (State r)),
                District = normalizeCase (trim (District r)),
                Age_0_5 = Some (int (Age_0_5 r)),
                Age_5_17 = Some (int (Age_5_17 r)),
                Age_18_plus = Some (int (Age_18_plus r))\<rparr>"
  unfolding parseRecord_def Let_def parseCSVLine_csv_line [OF assms]
  by (simp add: at_index_def parseInt_maybe_def parseInt_decimal)

subsection \<open>The round trip\<close>

text \<open>
  Claim C9, as the code has it. For every record whose period, state and
  district contain no comma, no double quote and no line feed, and whose three
  counts are natural numbers, \<open>parseCSV\<close> of a header line, a line feed and the
  record's line of CSV gives exactly one record. Its counts are the original
  counts. Its state and its district are \<open>normalizeCase\<close> of the original names
  with the white space at their two ends removed: the parser trims every field
  before it normalizes it, and \<open>normalizeCase\<close> takes the words between single
  spaces. Its period is the original period, trimmed.
\<close>

theorem parseCSV_roundtrip:
  assumes "header_line h"
    and "plain_field (Month r)" and "plain_field (State r)" and "plain_field (District r)"
  shows "parseCSV (h @ [CHR 0x0A] @ csv_line r) =
           Inr [\<lparr>Month = trim (Month r),
                 State = normalizeCase (trim (State r)),
                 District = normalizeCase (trim (District r)),
                 Age_0_5 = Some (int (Age_0_5 r)),
                 Age_5_17 = Some (int (Age_5_17 r)),
                 Age_18_plus = Some (int (Age_18_plus r))\<rparr>]"
proof -
  from assms(1) have h: "CHR 0x0A \<notin> set h" "\<exists>c \<in> set h. \<not> is_space c"
    by (simp_all add: header_line_def)
  have t: "trim (h @ [CHR 0x0A] @ csv_line r) = dropWhile is_space h @ CHR 0x0A # csv_line r"
    using trim_text [OF h(2)] csv_line_last [of r] by simp
  have "CHR 0x0A \<notin> set (dropWhile is_space h)"
    using h(1) set_dropWhileD by fastforce
  then have sp: "split_on (CHR 0x0A) (dropWhile is_space h @ CHR 0x0A # csv_line r)
                  = [dropWhile is_space h, csv_line r]"
    using csv_line_no_newline [OF assms(2-4)]
    by (simp add: split_on_first split_on_none)
  show ?thesis
    unfolding parseCSV_def Let_def t sp
    by (simp add: parseRecord_csv_line [OF assms(2-4)])
qed

text \<open>
  A record with the state \<open>UTTAR pradesh\<close> and the district \<open>agra\<close> comes back
  with \<open>Uttar Pradesh\<close> and \<open>Agra\<close>, and with its counts.
\<close>

theorem parseCSV_roundtrip_witness:
  "header_line sample_header \<and> plain_field (Month tidy_record) \<and>
   plain_field (State tidy_record) \<and> plain_field (District tidy_record) \<and>
   csv_line tidy_record = ''2024-01,UTTAR pradesh,agra,0,7,1200'' \<and>
   parseCSV (sample_header @ [CHR 0x0A] @ csv_line tidy_record) =
     Inr [\<lparr>Month = ''2024-01'', State = ''Uttar Pradesh'', District = ''Agra'',
           Age_0_5 = Some 0, Age_5_17 = Some 7, Age_18_plus = Some 1200\<rparr>]"
proof -
  have h: "header_line sample_header" by code_simp
  have p: "plain_field (Month tidy_record)" "plain_field (State tidy_record)"
    "plain_field (District tidy_record)" by code_simp+
  have l: "csv_line tidy_record = ''2024-01,UTTAR pradesh,agra,0,7,1200''" by code_simp
  have e: "trim (Month tidy_record) = ''2024-01''"
    "normalizeCase (trim (State tidy_record)) = ''Uttar Pradesh''"
    "normalizeCase (trim (District tidy_record)) = ''Agra''"
    "Age_0_5 tidy_record = 0" "Age_5_17 tidy_record = 7" "Age_18_plus tidy_record = 1200"
    by code_simp+
  from parseCSV_roundtrip [OF h p] h p l show ?thesis unfolding e by simp
qed

text \<open>
  Claim C9 as it is stated fails: it takes the names of the parsed record to be
  the original names normalized. The state of \<open>spaced_record\<close> starts with
  a space; the parsed state has lost it, the normalized original has not.
\<close>

theorem parseCSV_roundtrip_counterexample:
  "plain_field (Month spaced_record) \<and> plain_field (State spaced_record) \<and>
   plain_field (District spaced_record) \<and>
   csv_line spaced_record = ''2024-01, new  DELHI,north,45,30,25'' \<and>
   parseCSV (sample_header @ [CHR 0x0A] @ csv_line spaced_record) =
     Inr [\<lparr>Month = ''2024-01'', State = ''New  Delhi'', District = ''North'',
           Age_0_5 = Some 45, Age_5_17 = Some 30, Age_18_plus = Some 25\<rparr>] \<and>
   normalizeCase (State spaced_record) = '' New  Delhi'' \<and>
   ''New  Delhi'' \<noteq> normalizeCase (State spaced_record)"
  by code_simp

end
